theory Spec2Isabelle
  imports Main "HOL-Library.Sublist"
begin

section \<open>The query tree\<close>

text \<open>
  The validator (class \<open>SQLQueryValidator\<close>) never builds a syntax tree itself: it asks the
  parsing library for one and inspects it with \<open>isinstance\<close>, \<open>args.get\<close>, \<open>find\<close>,
  \<open>find_all\<close>, \<open>name\<close>, \<open>table\<close>, \<open>alias\<close>, \<open>parent\<close> and \<open>type\<close>. The library is not part of
  the repository, so the tree is a closed datatype over the node kinds that the rules
  distinguish, and every accessor the rules call is a function on it.
\<close>

text \<open>The classes of binary nodes; \<open>x IS NULL\<close> parses to an \<open>OpIs\<close> node, \<open>x = NULL\<close> to \<open>OpEQ\<close>.\<close>

datatype binop =
  OpEQ | OpNEQ | OpGT | OpGTE | OpLT | OpLTE | OpIs | OpLike | OpAnd | OpOr | OpOther string

text \<open>
  The attribute \<open>type\<close> of a node is the data type that type inference attached to it, an
  object of class \<open>DataType\<close>, or \<open>None\<close> when no inference ran (the parser attaches none).
\<close>

datatype data_type = DataType string

text \<open>
  Modelled from the spec: the node kinds of the Query AST (spec section 3), which the parsing
  library defines outside the repository. Fields, in order:
  \<^item> \<open>Column table name\<close> (\<open>table\<close> is empty for an unqualified column);
  \<^item> \<open>Literal is_string this\<close>;
  \<^item> \<open>Binary class type left right\<close>;
  \<^item> \<open>AggFunc function arguments\<close>;
  \<^item> \<open>Alias this alias\<close>;
  \<^item> \<open>Table name alias\<close> (\<open>alias\<close> is empty when the table has none);
  \<^item> \<open>Join this kind on using\<close> (\<open>using\<close> is empty when the join has no USING clause);
  \<^item> \<open>Select expressions from joins where group having\<close>;
  \<^item> \<open>Other alias children\<close> for every other node (parentheses, NOT, function calls,
    subqueries, ...).
\<close>

datatype expr =
    is_Column: Column string string
  | is_Literal: Literal bool string
  | is_Null: Null
  | is_Identifier: Identifier string
  | is_Star: Star
  | is_Binary: Binary binop "data_type option" expr expr
  | is_AggFunc: AggFunc string "expr list"
  | is_Alias: Alias expr string
  | is_Table: Table string string
  | is_From: From expr
  | is_Join: Join expr string "expr option" "expr list"
  | is_Where: Where expr
  | is_Group: Group "expr list"
  | is_Having: Having expr
  | is_Select: Select "expr list" "expr option" "expr list" "expr option" "expr option" "expr option"
  | is_Other: Other string "expr list"

subsection \<open>Accessors\<close>

text \<open>\<open>e.name\<close>: the text of the node's identifier; empty where the node has none.\<close>

fun name_of :: "expr \<Rightarrow> string" where
  "name_of (Column t n) = n"
| "name_of (Literal s v) = v"
| "name_of (Identifier n) = n"
| "name_of (Table n a) = n"
| "name_of Null = ''NULL''"
| "name_of Star = ''*''"
| "name_of _ = ''''"

text \<open>\<open>column.table\<close>.\<close>

fun table_of :: "expr \<Rightarrow> string" where
  "table_of (Column t n) = t"
| "table_of _ = ''''"

text \<open>\<open>e.alias\<close>: empty when the node has no alias.\<close>

fun alias_of :: "expr \<Rightarrow> string" where
  "alias_of (Alias e a) = a"
| "alias_of (Table n a) = a"
| "alias_of (Other a cs) = a"
| "alias_of _ = ''''"

text \<open>\<open>e.alias_or_name\<close>, and for a join \<open>join.alias_or_name\<close>, which is that of \<open>join.this\<close>.\<close>

definition alias_or_name :: "expr \<Rightarrow> string" where
  "alias_or_name e = (if alias_of e \<noteq> [] then alias_of e else name_of e)"

text \<open>\<open>join.this\<close>, \<open>join.kind\<close>, \<open>join.args.get("on")\<close>, \<open>join.args.get("using")\<close>.\<close>

fun join_this :: "expr \<Rightarrow> expr" where
  "join_this (Join t k c us) = t"
| "join_this e = e"

fun join_kind_of :: "expr \<Rightarrow> string" where
  "join_kind_of (Join t k c us) = k"
| "join_kind_of _ = ''''"

fun arg_on :: "expr \<Rightarrow> expr option" where
  "arg_on (Join t k c us) = c"
| "arg_on _ = None"

fun arg_using :: "expr \<Rightarrow> expr list" where
  "arg_using (Join t k c us) = us"
| "arg_using _ = []"

text \<open>
  \<open>e.expressions\<close> (for a SELECT also \<open>e.selects\<close>) and the clauses of a SELECT. The tree has
  no node kind for the other statements that carry a WHERE clause (DELETE, UPDATE): every
  node but a SELECT has none of these clauses here.
\<close>

fun expressions :: "expr \<Rightarrow> expr list" where
  "expressions (Select es f js w g h) = es"
| "expressions (Group es) = es"
| "expressions _ = []"

fun arg_from :: "expr \<Rightarrow> expr option" where
  "arg_from (Select es f js w g h) = f"
| "arg_from _ = None"

fun arg_joins :: "expr \<Rightarrow> expr list" where
  "arg_joins (Select es f js w g h) = js"
| "arg_joins _ = []"

fun arg_where :: "expr \<Rightarrow> expr option" where
  "arg_where (Select es f js w g h) = w"
| "arg_where _ = None"

fun arg_group :: "expr \<Rightarrow> expr option" where
  "arg_group (Select es f js w g h) = g"
| "arg_group _ = None"

fun arg_having :: "expr \<Rightarrow> expr option" where
  "arg_having (Select es f js w g h) = h"
| "arg_having _ = None"

subsection \<open>Traversal\<close>

fun opt_list :: "'a option \<Rightarrow> 'a list" where
  "opt_list None = []"
| "opt_list (Some x) = [x]"

fun children :: "expr \<Rightarrow> expr list" where
  "children (Binary bop ty l r) = [l, r]"
| "children (AggFunc f args) = args"
| "children (Alias e a) = [e]"
| "children (From e) = [e]"
| "children (Join t k c us) = t # opt_list c @ us"
| "children (Where e) = [e]"
| "children (Group es) = es"
| "children (Having e) = [e]"
| "children (Select es f js w g h) =
     es @ opt_list f @ js @ opt_list w @ opt_list g @ opt_list h"
| "children (Other a cs) = cs"
| "children _ = []"

fun nodes :: "expr \<Rightarrow> nat" where
  "nodes (Binary bop ty l r) = Suc (nodes l + nodes r)"
| "nodes (AggFunc f args) = Suc (sum_list (map nodes args))"
| "nodes (Alias e a) = Suc (nodes e)"
| "nodes (From e) = Suc (nodes e)"
| "nodes (Join t k c us) =
     Suc (nodes t + (case c of None \<Rightarrow> 0 | Some x \<Rightarrow> nodes x) + sum_list (map nodes us))"
| "nodes (Where e) = Suc (nodes e)"
| "nodes (Group es) = Suc (sum_list (map nodes es))"
| "nodes (Having e) = Suc (nodes e)"
| "nodes (Select es f js w g h) =
     Suc (sum_list (map nodes es) + (case f of None \<Rightarrow> 0 | Some x \<Rightarrow> nodes x)
       + sum_list (map nodes js) + (case w of None \<Rightarrow> 0 | Some x \<Rightarrow> nodes x)
       + (case g of None \<Rightarrow> 0 | Some x \<Rightarrow> nodes x)
       + (case h of None \<Rightarrow> 0 | Some x \<Rightarrow> nodes x))"
| "nodes (Other a cs) = Suc (sum_list (map nodes cs))"
| "nodes _ = Suc 0"

lemma children_smaller: "sum_list (map nodes (children e)) < nodes e"
  by (cases e) (simp_all split: option.splits)

text \<open>
  \<open>e.walk()\<close>: the nodes below and including \<open>e\<close>, breadth first (the library's default
  order), each with its parent (\<open>node.parent\<close>). The queue holds the nodes still to visit.
\<close>

function bfs :: "(expr option \<times> expr) list \<Rightarrow> (expr option \<times> expr) list" where
  "bfs [] = []"
| "bfs ((p, e) # q) = (p, e) # bfs (q @ map (Pair (Some e)) (children e))"
  by pat_completeness auto
termination
  by (relation "measure (\<lambda>q. sum_list (map (nodes \<circ> snd) q))")
     (simp_all add: comp_def children_smaller)

definition walk :: "expr \<Rightarrow> (expr option \<times> expr) list" where
  "walk e = bfs [(None, e)]"

text \<open>\<open>e.find_all(cls)\<close> and \<open>e.find(cls)\<close>; the class test is a predicate on nodes.\<close>

definition find_all :: "(expr \<Rightarrow> bool) \<Rightarrow> expr \<Rightarrow> expr list" where
  "find_all cls e = filter cls (map snd (walk e))"

definition find_first :: "(expr \<Rightarrow> bool) \<Rightarrow> expr \<Rightarrow> expr option" where
  "find_first cls e = (case find_all cls e of [] \<Rightarrow> None | x # xs \<Rightarrow> Some x)"

text \<open>\<open>node.parent\<close> tested with \<open>isinstance(_, exp.AggFunc)\<close>.\<close>

fun parent_is_AggFunc :: "expr option \<Rightarrow> bool" where
  "parent_is_AggFunc None = False"
| "parent_is_AggFunc (Some p) = is_AggFunc p"

section \<open>Python values and strings\<close>

text \<open>The values that \<open>condition.type\<close> and the string literals compared with it range over.\<close>

datatype pyval = PyNone | PyStr string | PyDataType data_type

fun node_type :: "expr \<Rightarrow> pyval" where
  "node_type (Binary bop None l r) = PyNone"
| "node_type (Binary bop (Some d) l r) = PyDataType d"
| "node_type _ = PyNone"

text \<open>\<open>str.upper\<close> on the ASCII letters; other characters are left as they are.\<close>

definition upper_char :: "char \<Rightarrow> char" where
  "upper_char c =
     (case map_of (zip ''abcdefghijklmnopqrstuvwxyz'' ''ABCDEFGHIJKLMNOPQRSTUVWXYZ'') c of
        Some u \<Rightarrow> u | None \<Rightarrow> c)"

definition upper :: "string \<Rightarrow> string" where
  "upper s = map upper_char s"

text \<open>
  \<open>str.isdigit\<close> on ASCII: not empty and decimal digits only. Python also accepts the
  digits of other scripts and superscript digits, which an ASCII string does not hold.
\<close>

definition isdigit :: "string \<Rightarrow> bool" where
  "isdigit s = (s \<noteq> [] \<and> list_all (\<lambda>c. c \<in> set ''0123456789'') s)"

text \<open>\<open>s.replace('.', '', 1)\<close>: the first dot removed.\<close>

definition drop_first_dot :: "string \<Rightarrow> string" where
  "drop_first_dot s = remove1 (CHR ''.'') s"

text \<open>\<open>f"{col.table}.{col.name}" if col.table else col.name\<close>.\<close>

definition full_name :: "expr \<Rightarrow> string" where
  "full_name col =
     (if table_of col \<noteq> [] then table_of col @ ''.'' @ name_of col else name_of col)"

section \<open>Catalog and result\<close>

text \<open>
  \<open>self.metadata\<close>: a dictionary from table name to a dictionary from column name to declared
  type, both in insertion order.
\<close>

type_synonym column_map = "(string \<times> string) list"
type_synonym catalog = "(string \<times> column_map) list"

text \<open>\<open>table_name in self.metadata and col_name in self.metadata[table_name]\<close>.\<close>

definition has_column :: "catalog \<Rightarrow> string \<Rightarrow> string \<Rightarrow> bool" where
  "has_column md t c =
     (case map_of md t of None \<Rightarrow> False | Some cols \<Rightarrow> c \<in> set (map fst cols))"

text \<open>
  The dictionary comprehension of \<open>_validate_where\<close>: column name to type over all tables; a
  later table overwrites an earlier one.
\<close>

definition flat_types :: "catalog \<Rightarrow> string \<rightharpoonup> string" where
  "flat_types md = map_of (rev (concat (map snd md)))"

text \<open>
  The three fields of an error entry. The source writes the type, the message and the
  suggestion as Chinese text with the offending names spliced in; here each text is a
  constructor and the spliced names are its arguments.

  The eleven values of \<open>type\<close>. One type serves both the missing FROM and the missing
  GROUP BY (\<open>StructureError\<close>), and one both the join without condition and the USING column
  that is on one side only (\<open>JoinError\<close>); the message tells them apart.
\<close>

datatype error_type =
    SyntaxError | StructureError | GroupByIncomplete | JoinError | ColumnMissing
  | ObjectMissing | TypeMismatch | NullComparison | MisusedHaving | IllegalHavingColumn
  | TableMissing

datatype msg =
    ParserSaid string
  | SelectWithoutFrom
  | AggregatesWithoutGroupBy
  | ColumnsNotInGroupBy "string list"
  | JoinWithoutCondition string
  | UsingColumnNowhere string "string list"
  | UsingColumnOneSide string string
  | OnTableNotJoined string
  | TableHasNoColumn string string
  | NumericVsString string string
  | CharacterVsNonString string
  | UseIsNull
  | HavingWithoutGroupBy
  | HavingColumnNotSelected string
  | NoSuchTable string
  | NoSuchColumn string

datatype hint =
    CheckSpelling
  | AddFrom
  | AddGroupBy
  | AddToGroupBy "string list"
  | AddOnOrUsing
  | AvailableByTable "(string \<times> string list) list"
  | UseOnInstead
  | JoinedTables "string list"
  | AvailableColumns "string list"
  | NoColumnInformation
  | RemoveQuotesOrCast
  | AddQuotes
  | ReplaceByIsNull pyval
  | UseWhereInstead
  | AddToSelect
  | AvailableTables "string list"

record diagnostic =
  etype :: error_type
  message :: msg
  suggestion :: hint

record result =
  is_valid :: bool
  errors :: "diagnostic list"
  suggestions :: "string list"

text \<open>
  Every place that records an error runs the same two statements,
  \<open>result["is_valid"] = False\<close> and \<open>result["errors"].append({...})\<close>.
\<close>

definition report :: "result \<Rightarrow> error_type \<Rightarrow> msg \<Rightarrow> hint \<Rightarrow> result" where
  "report r t m s =
     r\<lparr>is_valid := False, errors := errors r @ [\<lparr>etype = t, message = m, suggestion = s\<rparr>]\<rparr>"

section \<open>The rules\<close>

subsection \<open>\<open>_validate_select_statement\<close>\<close>

text \<open>
  \<open>selected_columns\<close>: the entries of the select list that are themselves column nodes. The
  source also asks that the entry's parent is no aggregate call; the parent of an entry of
  the select list is the statement.
\<close>

definition selected_columns :: "expr \<Rightarrow> expr list" where
  "selected_columns stmt =
     filter (\<lambda>e. is_Column e \<and> \<not> is_AggFunc stmt) (expressions stmt)"

definition group_by_columns :: "expr \<Rightarrow> expr list" where
  "group_by_columns stmt =
     (case arg_group stmt of None \<Rightarrow> [] | Some g \<Rightarrow> filter is_Column (expressions g))"

text \<open>The three checks of the function, in the order of the source.\<close>

definition check_from :: "expr \<Rightarrow> result \<Rightarrow> result" where
  "check_from stmt result =
     (if arg_from stmt = None
      then report result StructureError SelectWithoutFrom AddFrom else result)"

definition check_aggregates :: "expr \<Rightarrow> result \<Rightarrow> result" where
  "check_aggregates stmt result =
     (let aggregates = find_all is_AggFunc stmt
      in if aggregates \<noteq> [] \<and> selected_columns stmt \<noteq> [] \<and> arg_group stmt = None
         then report result StructureError AggregatesWithoutGroupBy AddGroupBy
         else result)"

text \<open>The missing columns are a Python set: here a list without repetitions.\<close>

definition check_group_by :: "expr \<Rightarrow> result \<Rightarrow> result" where
  "check_group_by stmt result =
     (if arg_group stmt \<noteq> None \<and> selected_columns stmt \<noteq> []
      then (let select_col_names = remdups (map full_name (selected_columns stmt));
                group_by_col_names = remdups (map full_name (group_by_columns stmt));
                missing_columns =
                  filter (\<lambda>n. n \<notin> set group_by_col_names) select_col_names
            in if missing_columns \<noteq> []
               then report result GroupByIncomplete (ColumnsNotInGroupBy missing_columns)
                      (AddToGroupBy missing_columns)
               else result)
      else result)"

definition validate_select_statement :: "expr \<Rightarrow> result \<Rightarrow> result" where
  "validate_select_statement stmt result =
     check_group_by stmt (check_aggregates stmt (check_from stmt result))"

subsection \<open>\<open>_validate_joins\<close>\<close>

text \<open>The dictionaries \<open>{"name": ..., "alias": ...}\<close> of \<open>base_tables\<close> and \<open>join_tables\<close>.\<close>

record table_info =
  tbl_name :: string
  tbl_alias :: string

text \<open>The body of \<open>for col in using_columns\<close>.\<close>

definition using_step :: "catalog \<Rightarrow> table_info list \<Rightarrow> result \<Rightarrow> expr \<Rightarrow> result" where
  "using_step md join_tables result col =
     (let col_name = name_of col;
          valid_tables =
            map tbl_alias (filter (\<lambda>table_info. has_column md (tbl_name table_info) col_name) join_tables)
      in if valid_tables = []
         then report result ColumnMissing
                (UsingColumnNowhere col_name (map tbl_alias join_tables))
                (AvailableByTable
                   (map (\<lambda>(t, cols). (t, map fst cols))
                      (filter (\<lambda>(t, cols). t \<in> set (map tbl_name join_tables)) md)))
         else if length valid_tables < 2
         then report result JoinError (UsingColumnOneSide col_name (hd valid_tables))
                UseOnInstead
         else result)"

text \<open>
  \<open>real_table = col_table\<close>, replaced by \<open>table_aliases[col_table]\<close> when \<open>col_table\<close> is a key
  of the dictionary.
\<close>

definition resolve :: "(string \<rightharpoonup> string) \<Rightarrow> string \<Rightarrow> string" where
  "resolve table_aliases col_table =
     (case table_aliases col_table of Some t \<Rightarrow> t | None \<Rightarrow> col_table)"

text \<open>The body of \<open>for column in on_clause.find_all(exp.Column)\<close>.\<close>

definition on_step ::
  "catalog \<Rightarrow> table_info list \<Rightarrow> (string \<rightharpoonup> string) \<Rightarrow> result \<Rightarrow> expr \<Rightarrow> result" where
  "on_step md join_tables table_aliases result column =
     (let col_table = table_of column;
          col_name = name_of column;
          real_table = resolve table_aliases col_table;
          table_exists = list_ex (\<lambda>t. tbl_name t = real_table) join_tables
      in if \<not> table_exists
         then report result ObjectMissing (OnTableNotJoined col_table)
                (JoinedTables (map tbl_alias join_tables))
         else if has_column md real_table col_name then result
         else report result ColumnMissing (TableHasNoColumn real_table col_name)
                (case map_of md real_table of
                   Some cols \<Rightarrow> AvailableColumns (map fst cols)
                 | None \<Rightarrow> NoColumnInformation))"

text \<open>
  \<open>join_tables\<close> as the body of \<open>for join in joins\<close> builds it: emptied at the start of each
  round, filled with \<open>base_tables\<close> when it is empty, then the join's own table appended.
\<close>

definition join_tables_of :: "table_info list \<Rightarrow> expr \<Rightarrow> table_info list" where
  "join_tables_of base_tables join =
     (let join_tables0 = [];
          join_tables1 = (if join_tables0 = [] \<and> base_tables \<noteq> []
                          then join_tables0 @ base_tables else join_tables0)
      in join_tables1 @ [\<lparr>tbl_name = name_of (join_this join), tbl_alias = alias_or_name (join_this join)\<rparr>])"

text \<open>The body of \<open>for join in joins\<close>; the two \<open>continue\<close> end the round.\<close>

definition join_step ::
  "catalog \<Rightarrow> table_info list \<Rightarrow> (string \<rightharpoonup> string) \<Rightarrow> result \<Rightarrow> expr \<Rightarrow> result" where
  "join_step md base_tables table_aliases result join =
     (let join_kind = upper (join_kind_of join);
          on_clause = arg_on join;
          using_columns = arg_using join;
          join_tables = join_tables_of base_tables join
      in if on_clause = None \<and> using_columns = []
         then report result JoinError (JoinWithoutCondition join_kind) AddOnOrUsing
         else if using_columns \<noteq> []
         then foldl (using_step md join_tables) result using_columns
         else (case on_clause of
                 None \<Rightarrow> result
               | Some c \<Rightarrow>
                   foldl (on_step md join_tables table_aliases) result (find_all is_Column c)))"

text \<open>The tables of the FROM clause: \<open>base_tables\<close> and the first entries of \<open>table_aliases\<close>.\<close>

definition table_entry :: "expr \<Rightarrow> table_info" where
  "table_entry table_ref =
     \<lparr>tbl_name = name_of table_ref,
      tbl_alias = (if alias_of table_ref \<noteq> [] then alias_of table_ref else name_of table_ref)\<rparr>"

definition from_tables :: "expr \<Rightarrow> table_info list" where
  "from_tables parsed =
     (case find_first is_From parsed of
        None \<Rightarrow> []
      | Some from_table \<Rightarrow> map table_entry (find_all is_Table from_table))"

definition alias_map :: "expr \<Rightarrow> (string \<rightharpoonup> string)" where
  "alias_map parsed =
     foldl (\<lambda>m join. m(alias_or_name (join_this join) \<mapsto> name_of (join_this join)))
       (foldl (\<lambda>m t. m(tbl_alias t \<mapsto> tbl_name t)) Map.empty (from_tables parsed))
       (arg_joins parsed)"

definition validate_joins :: "catalog \<Rightarrow> expr \<Rightarrow> result \<Rightarrow> result" where
  "validate_joins md parsed result =
     foldl (join_step md (from_tables parsed) (alias_map parsed)) result (arg_joins parsed)"

subsection \<open>\<open>_validate_where\<close>\<close>

text \<open>The second check of the loop body: the comparison with NULL.\<close>

definition null_check :: "expr \<Rightarrow> expr \<Rightarrow> result \<Rightarrow> result" where
  "null_check condition right result =
     (let is_null_value =
            (if is_Null right then True
             else if is_Identifier right \<and> upper (name_of right) = ''NULL'' then True
             else False)
      in if is_null_value \<and> node_type condition \<notin> set [PyStr ''IS'', PyStr ''IS NOT'']
         then report result NullComparison UseIsNull (ReplaceByIsNull (node_type condition))
         else result)"

text \<open>
  The body of \<open>for condition in where_clause.find_all(exp.Binary)\<close>. The \<open>continue\<close> for a
  column without a known type ends the round before the NULL check.
\<close>

fun where_step :: "(string \<rightharpoonup> string) \<Rightarrow> result \<Rightarrow> expr \<Rightarrow> result" where
  "where_step column_types result (Binary bop ty left right) =
     (if is_Column left \<and> is_Literal right
      then (let column_name = name_of left in
            case column_types column_name of
              None \<Rightarrow> result
            | Some column_type \<Rightarrow>
                if column_type = [] then result
                else null_check (Binary bop ty left right) right
                  (case right of
                     Literal is_string this \<Rightarrow>
                       if prefix ''integer'' column_type \<and> is_string
                          \<and> \<not> isdigit (drop_first_dot this)
                       then report result TypeMismatch (NumericVsString column_name this)
                              RemoveQuotesOrCast
                       else if prefix ''character'' column_type \<and> \<not> is_string
                       then report result TypeMismatch (CharacterVsNonString column_name)
                              AddQuotes
                       else result
                   | _ \<Rightarrow> result))
      else null_check (Binary bop ty left right) right result)"
| "where_step column_types result e = result"

definition validate_where :: "catalog \<Rightarrow> expr \<Rightarrow> result \<Rightarrow> result" where
  "validate_where md parsed result =
     (case arg_where parsed of
        None \<Rightarrow> result
      | Some where_clause \<Rightarrow>
          foldl (where_step (flat_types md)) result (find_all is_Binary where_clause))"

subsection \<open>\<open>_validate_having\<close>\<close>

text \<open>
  What one entry of the select list adds to \<open>select_columns\<close>. The text of a node,
  \<open>str(expr)\<close>, is made by the library: the parameter \<open>sql\<close>.
\<close>

definition expose :: "(expr \<Rightarrow> string) \<Rightarrow> string set \<Rightarrow> expr \<Rightarrow> string set" where
  "expose sql select_columns e =
     (case e of
        Alias inner_expr a \<Rightarrow>
          (let s1 = insert a select_columns in
           if is_Column inner_expr
           then (let s2 = insert (name_of inner_expr) s1 in
                 if table_of inner_expr \<noteq> []
                 then insert (table_of inner_expr @ ''.'' @ name_of inner_expr) s2 else s2)
           else s1)
      | Column t n \<Rightarrow>
          (let s1 = insert n select_columns in
           if t \<noteq> [] then insert (t @ ''.'' @ n) s1 else s1)
      | AggFunc f args \<Rightarrow> select_columns
      | _ \<Rightarrow>
          if alias_of e \<noteq> [] then insert (alias_of e) select_columns
          else insert (sql e) select_columns)"

text \<open>The body of \<open>for column in having_clause.find_all(exp.Column)\<close>, on a node and its parent.\<close>

definition having_step :: "string set \<Rightarrow> result \<Rightarrow> expr option \<times> expr \<Rightarrow> result" where
  "having_step select_columns result pc =
     (let column = snd pc in
      if parent_is_AggFunc (fst pc) then result
      else if full_name column \<notin> select_columns \<and> name_of column \<notin> select_columns
      then report result IllegalHavingColumn (HavingColumnNotSelected (full_name column))
             AddToSelect
      else result)"

text \<open>
  The body of \<open>for expr in self.parsed.selects\<close>. In the source the loop over the columns of
  HAVING stands inside this body, one level deeper than the comment that numbers it as the
  third step: it runs once for every entry of the select list, against the names collected
  up to that entry.
\<close>

definition select_entry_step ::
  "(expr \<Rightarrow> string) \<Rightarrow> expr \<Rightarrow> string set \<times> result \<Rightarrow> expr \<Rightarrow> string set \<times> result" where
  "select_entry_step sql having_clause state e =
     (let select_columns = expose sql (fst state) e
      in (select_columns,
          foldl (having_step select_columns) (snd state)
            (filter (\<lambda>pc. is_Column (snd pc)) (walk having_clause))))"

text \<open>The first check of the function: HAVING without GROUP BY and without an aggregate.\<close>

definition check_misused_having :: "expr \<Rightarrow> expr \<Rightarrow> result \<Rightarrow> result" where
  "check_misused_having stmt having_clause result =
     (if arg_group stmt = None
      then (let aggregates = find_all is_AggFunc having_clause
            in if aggregates = []
               then report result MisusedHaving HavingWithoutGroupBy UseWhereInstead
               else result)
      else result)"

definition validate_having :: "(expr \<Rightarrow> string) \<Rightarrow> expr \<Rightarrow> result \<Rightarrow> result" where
  "validate_having sql stmt result =
     (case arg_having stmt of
        None \<Rightarrow> result
      | Some having_clause \<Rightarrow>
          snd (foldl (select_entry_step sql having_clause)
                 ({}, check_misused_having stmt having_clause result)
                 (expressions stmt)))"

subsection \<open>\<open>_validate_tables_and_columns\<close>\<close>

text \<open>
  \<open>_extract_tables_and_columns\<close>: the table names of FROM and of every join of the tree, and
  the names of all column nodes, each made a set and a list again (here: without
  repetitions, in order of first occurrence; the order in which Python walks a set of
  strings is not fixed, and so neither is the order of the diagnostics of this rule).
\<close>

definition extract_tables :: "expr \<Rightarrow> string list" where
  "extract_tables parsed =
     remdups (map tbl_name (from_tables parsed)
              @ map (\<lambda>join. name_of (join_this join)) (find_all is_Join parsed))"

definition extract_columns :: "expr \<Rightarrow> string list" where
  "extract_columns parsed = remdups (map name_of (find_all is_Column parsed))"

definition table_step :: "catalog \<Rightarrow> result \<Rightarrow> string \<Rightarrow> result" where
  "table_step md result t =
     (if t \<notin> set (map fst md)
      then report result TableMissing (NoSuchTable t) (AvailableTables (map fst md))
      else result)"

definition column_step :: "string list \<Rightarrow> result \<Rightarrow> string \<Rightarrow> result" where
  "column_step all_columns result c =
     (if c \<notin> set all_columns
      then report result ColumnMissing (NoSuchColumn c) (AvailableColumns all_columns)
      else result)"

definition validate_tables_and_columns :: "catalog \<Rightarrow> expr \<Rightarrow> result \<Rightarrow> result" where
  "validate_tables_and_columns md parsed result =
     (let all_columns = remdups (map fst (concat (map snd md)))
      in foldl (column_step all_columns)
           (foldl (table_step md) result (extract_tables parsed))
           (extract_columns parsed))"

section \<open>\<open>validate\<close>\<close>

text \<open>
  What \<open>sqlglot.parse_one\<close> does with a query text: it returns a tree, raises \<open>ParseError\<close>,
  or raises something else. The parser is a parameter of the model.
\<close>

datatype parse_outcome = Parsed expr | ParseError string | OtherFault string

text \<open>The instance: its catalog, and the tree and the text of the last call.\<close>

record validator =
  metadata :: catalog
  parsed :: "expr option"
  query :: string

text \<open>
  What leaves \<open>validate\<close> as an exception: the \<open>AttributeError\<close> of \<open>self.parsed.args\<close> when
  \<open>self.parsed\<close> is \<open>None\<close>, and whatever the parser raised that is no \<open>ParseError\<close>.
\<close>

datatype error = AttributeError | Propagated string

text \<open>The steps 2 to 6 of \<open>validate\<close> on a tree.\<close>

definition apply_rules :: "(expr \<Rightarrow> string) \<Rightarrow> catalog \<Rightarrow> expr \<Rightarrow> result \<Rightarrow> result" where
  "apply_rules sql md e result =
     (let r2 = (if is_Select e then validate_select_statement e result else result);
          r3 = validate_joins md e r2;
          r4 = validate_where md e r3;
          r5 = validate_having sql e r4
      in if md \<noteq> [] then validate_tables_and_columns md e r5 else r5)"

text \<open>
  The rules read \<open>self.parsed\<close>. When it is \<open>None\<close>, \<open>isinstance(None, exp.Select)\<close> is false
  and the first statement of \<open>_validate_joins\<close>, which reads \<open>self.parsed.args\<close>, raises.
\<close>

definition run_rules ::
  "(expr \<Rightarrow> string) \<Rightarrow> validator \<Rightarrow> result \<Rightarrow> error + (validator \<times> result)" where
  "run_rules sql self result =
     (case parsed self of
        None \<Rightarrow> Inl AttributeError
      | Some e \<Rightarrow> Inr (self, apply_rules sql (metadata self) e result))"

text \<open>
  \<open>validate\<close>: only \<open>ParseError\<close> is caught, and after it the rules run all the same, on the
  tree that \<open>self.parsed\<close> still holds from before the call.
\<close>

definition validate ::
  "(string \<Rightarrow> parse_outcome) \<Rightarrow> (expr \<Rightarrow> string) \<Rightarrow> validator \<Rightarrow> string
     \<Rightarrow> error + (validator \<times> result)" where
  "validate parse_one sql self q =
     (let self1 = self\<lparr>query := q\<rparr>;
          result = \<lparr>is_valid = True, errors = [], suggestions = []\<rparr>
      in case parse_one q of
           Parsed e \<Rightarrow> run_rules sql (self1\<lparr>parsed := Some e\<rparr>) result
         | ParseError m \<Rightarrow>
             run_rules sql self1 (report result SyntaxError (ParserSaid m) CheckSpelling)
         | OtherFault m \<Rightarrow> Inl (Propagated m))"

text \<open>\<open>SQLQueryValidator(db_config=...)\<close> after \<open>_load_metadata\<close> has filled the catalog.\<close>

definition new_validator :: "catalog \<Rightarrow> validator" where
  "new_validator md = \<lparr>metadata = md, parsed = None, query = []\<rparr>"

section \<open>Notions of the specification\<close>

text \<open>
  The tables of a join's table set whose column map has the column: the count that the
  specification of the USING check speaks of.
\<close>

definition tables_with_column :: "catalog \<Rightarrow> table_info list \<Rightarrow> string \<Rightarrow> table_info list" where
  "tables_with_column md join_tables c =
     filter (\<lambda>t. case map_of md (tbl_name t) of
                   None \<Rightarrow> False
                 | Some column_map \<Rightarrow> c \<in> set (map fst column_map))
       join_tables"

text \<open>
  The JoinTableSet of the specification (section 4.1) for the join at position \<open>k\<close> (from 0)
  of the statement's joins: all tables accumulated so far from FROM and the joins before
  it, and the join's own table. This follows the words of the specification; what the code
  builds is \<open>join_tables_of\<close>.
\<close>

definition join_table_set :: "table_info list \<Rightarrow> expr list \<Rightarrow> nat \<Rightarrow> table_info list" where
  "join_table_set base_tables joins k =
     base_tables
     @ map (\<lambda>join. \<lparr>tbl_name = name_of (join_this join),
                       tbl_alias = alias_or_name (join_this join)\<rparr>)
         (take (Suc k) joins)"

text \<open>
  The kinds of diagnostic that the claims name, as tests on an error entry. The missing
  GROUP BY shares its type with the missing FROM and is told apart by its message.
\<close>

definition is_missing_group_by :: "diagnostic \<Rightarrow> bool" where
  "is_missing_group_by d = (etype d = StructureError \<and> message d = AggregatesWithoutGroupBy)"

definition is_type_mismatch :: "diagnostic \<Rightarrow> bool" where
  "is_type_mismatch d = (etype d = TypeMismatch)"

text \<open>
  A column reference outside an aggregate call, as the HAVING rule reads it: a column node
  whose parent is no aggregate call.
\<close>

definition non_aggregate_column :: "expr option \<times> expr \<Rightarrow> bool" where
  "non_aggregate_column pc = (is_Column (snd pc) \<and> \<not> parent_is_AggFunc (fst pc))"

section \<open>Example catalog and queries\<close>

text \<open>
  A parser given by the texts it knows and their trees; every other text is a parse error.
\<close>

definition parser_of :: "(string \<times> expr) list \<Rightarrow> string \<Rightarrow> parse_outcome" where
  "parser_of known q =
     (case map_of known q of
        Some e \<Rightarrow> Parsed e
      | None \<Rightarrow> ParseError ''Invalid expression / Unexpected token'')"

text \<open>The examples ask for the text of no node.\<close>

definition no_text :: "expr \<Rightarrow> string" where
  "no_text e = []"

definition home_catalog :: catalog where
  "home_catalog =
     [(''users'', [(''user_id'', ''integer''), (''username'', ''character varying''),
                   (''e_mail'', ''character varying'')]),
      (''devices'', [(''device_id'', ''integer''), (''user_id'', ''integer'')]),
      (''usage_records'', [(''record_id'', ''integer''), (''device_id'', ''integer'')])]"

definition users_devices :: "table_info list" where
  "users_devices =
     [\<lparr>tbl_name = ''users'', tbl_alias = ''users''\<rparr>,
      \<lparr>tbl_name = ''devices'', tbl_alias = ''devices''\<rparr>]"

definition empty_result :: result where
  "empty_result = \<lparr>is_valid = True, errors = [], suggestions = []\<rparr>"

definition sql_is_null :: string where
  "sql_is_null = ''SELECT user_id FROM users WHERE e_mail IS NULL''"

definition q_is_null :: expr where
  "q_is_null =
     Select [Column [] ''user_id''] (Some (From (Table ''users'' []))) []
       (Some (Where (Binary OpIs None (Column [] ''e_mail'') Null))) None None"

definition sql_is_not_null :: string where
  "sql_is_not_null = ''SELECT user_id FROM users WHERE e_mail IS NOT NULL''"

text \<open>\<open>x IS NOT NULL\<close> parses to a negation node over the \<open>IS\<close> node.\<close>

definition q_is_not_null :: expr where
  "q_is_not_null =
     Select [Column [] ''user_id''] (Some (From (Table ''users'' []))) []
       (Some (Where (Other [] [Binary OpIs None (Column [] ''e_mail'') Null]))) None None"

definition sql_three_tables :: string where
  "sql_three_tables =
     ''SELECT * FROM users JOIN devices USING (user_id) JOIN usage_records USING (device_id)''"

definition q_three_tables :: expr where
  "q_three_tables =
     Select [Star] (Some (From (Table ''users'' [])))
       [Join (Table ''devices'' []) [] None [Identifier ''user_id''],
        Join (Table ''usage_records'' []) [] None [Identifier ''device_id'']]
       None None None"

definition sql_having_phone :: string where
  "sql_having_phone =
     ''SELECT user_id, COUNT(*) FROM users GROUP BY user_id HAVING phone_num > 0''"

definition q_having_phone :: expr where
  "q_having_phone =
     Select [Column [] ''user_id'', AggFunc ''COUNT'' [Star]]
       (Some (From (Table ''users'' []))) [] None
       (Some (Group [Column [] ''user_id'']))
       (Some (Having (Binary OpGT None (Column [] ''phone_num'') (Literal False ''0''))))"

definition sql_having_user :: string where
  "sql_having_user =
     ''SELECT COUNT(*), user_id FROM users GROUP BY user_id HAVING user_id > 0''"

definition q_having_user :: expr where
  "q_having_user =
     Select [AggFunc ''COUNT'' [Star], Column [] ''user_id'']
       (Some (From (Table ''users'' []))) [] None
       (Some (Group [Column [] ''user_id'']))
       (Some (Having (Binary OpGT None (Column [] ''user_id'') (Literal False ''0''))))"

definition sql_on_join :: string where
  "sql_on_join = ''SELECT * FROM users JOIN devices ON users.user_id = devices.user_id''"

definition q_on_join :: expr where
  "q_on_join =
     Select [Star] (Some (From (Table ''users'' [])))
       [Join (Table ''devices'' []) []
          (Some (Binary OpEQ None (Column ''users'' ''user_id'') (Column ''devices'' ''user_id'')))
          []]
       None None None"

definition sql_using_join :: string where
  "sql_using_join = ''SELECT * FROM users JOIN devices USING (user_id)''"

definition q_using_join :: expr where
  "q_using_join =
     Select [Star] (Some (From (Table ''users'' [])))
       [Join (Table ''devices'' []) [] None [Identifier ''user_id'']]
       None None None"

definition sql_inner_join :: string where
  "sql_inner_join = ''SELECT * FROM users INNER JOIN devices''"

definition q_inner_join :: expr where
  "q_inner_join =
     Select [Star] (Some (From (Table ''users'' [])))
       [Join (Table ''devices'' []) ''INNER'' None []]
       None None None"

definition sql_alias_count :: string where
  "sql_alias_count = ''SELECT user_id AS uid, COUNT(*) FROM users''"

definition q_alias_count :: expr where
  "q_alias_count =
     Select [Alias (Column [] ''user_id'') ''uid'', AggFunc ''COUNT'' [Star]]
       (Some (From (Table ''users'' []))) [] None None None"

definition sql_expr_count :: string where
  "sql_expr_count = ''SELECT user_id + 1, COUNT(*) FROM users''"

definition q_expr_count :: expr where
  "q_expr_count =
     Select [Binary (OpOther ''+'') None (Column [] ''user_id'') (Literal False ''1''),
             AggFunc ''COUNT'' [Star]]
       (Some (From (Table ''users'' []))) [] None None None"

definition sql_count :: string where
  "sql_count = ''SELECT user_id, COUNT(*) FROM users''"

definition q_count :: expr where
  "q_count =
     Select [Column [] ''user_id'', AggFunc ''COUNT'' [Star]]
       (Some (From (Table ''users'' []))) [] None None None"

section \<open>What each rule adds to the result\<close>

text \<open>
  \<open>appends Q r r'\<close>: \<open>r'\<close> is \<open>r\<close> with diagnostics added at the end, each of them satisfying
  \<open>Q\<close>, and its flag is true exactly when the flag of \<open>r\<close> was true and nothing was added.
\<close>

definition appends :: "(diagnostic \<Rightarrow> bool) \<Rightarrow> result \<Rightarrow> result \<Rightarrow> bool" where
  "appends Q r r' =
     (prefix (errors r) (errors r')
      \<and> list_all Q (drop (length (errors r)) (errors r'))
      \<and> is_valid r' = (is_valid r \<and> errors r' = errors r))"

text \<open>A diagnostic whose type is one of \<open>ts\<close>.\<close>

definition of_types :: "error_type list \<Rightarrow> diagnostic \<Rightarrow> bool" where
  "of_types ts d = (etype d \<in> set ts)"

lemma appends_iff:
  "appends Q r r' \<longleftrightarrow>
     (\<exists>ds. list_all Q ds \<and> errors r' = errors r @ ds \<and> is_valid r' = (is_valid r \<and> ds = []))"
  by (auto simp: appends_def prefix_def)

lemma appends_refl: "appends Q r r"
  by (simp add: appends_def)

lemma appends_report: "Q \<lparr>etype = t, message = m, suggestion = s\<rparr> \<Longrightarrow> appends Q r (report r t m s)"
  by (simp add: appends_def report_def)

lemma appends_report_type: "t \<in> set ts \<Longrightarrow> appends (of_types ts) r (report r t m s)"
  by (simp add: appends_report of_types_def)

lemma appends_trans: "appends Q r r' \<Longrightarrow> appends Q r' r'' \<Longrightarrow> appends Q r r''"
  by (auto simp: appends_iff)

lemma appends_mono: "appends Q r r' \<Longrightarrow> (\<And>d. Q d \<Longrightarrow> Q' d) \<Longrightarrow> appends Q' r r'"
  by (auto simp: appends_iff list_all_iff)

lemma appends_foldl:
  assumes "\<And>r x. appends Q r (f r x)"
  shows "appends Q r (foldl f r xs)"
proof (induction xs arbitrary: r)
  case Nil
  show ?case by (simp add: appends_refl)
next
  case (Cons x xs)
  have "appends Q r (f r x)" by (rule assms)
  moreover have "appends Q (f r x) (foldl f (f r x) xs)" by (rule Cons.IH)
  ultimately show ?case by (simp add: appends_trans)
qed

lemma using_step_appends:
  "appends (of_types [JoinError, ColumnMissing, ObjectMissing]) r (using_step md jts r col)"
  by (simp add: using_step_def Let_def appends_refl appends_report_type)

lemma on_step_appends:
  "appends (of_types [JoinError, ColumnMissing, ObjectMissing]) r (on_step md jts al r col)"
  by (simp add: on_step_def Let_def appends_refl appends_report_type)

lemma join_step_appends:
  "appends (of_types [JoinError, ColumnMissing, ObjectMissing]) r (join_step md bt al r j)"
proof -
  let ?Q = "of_types [JoinError, ColumnMissing, ObjectMissing]"
  have u: "appends ?Q r (foldl (using_step md jts) r us)" for jts us
    by (rule appends_foldl) (rule using_step_appends)
  have o: "appends ?Q r (foldl (on_step md jts al) r cs)" for jts cs
    by (rule appends_foldl) (rule on_step_appends)
  show ?thesis
    by (simp add: join_step_def Let_def appends_refl appends_report_type u o split: option.splits)
qed

lemma validate_joins_appends:
  "appends (of_types [JoinError, ColumnMissing, ObjectMissing]) r (validate_joins md e r)"
  unfolding validate_joins_def by (intro appends_foldl join_step_appends)

lemma null_check_appends:
  "appends (of_types [TypeMismatch, NullComparison]) r (null_check c rt r)"
  by (simp add: null_check_def appends_refl appends_report_type)

lemma where_step_appends:
  "appends (of_types [TypeMismatch, NullComparison]) r (where_step ct r c)"
proof (cases c)
  case (Binary bop ty l rt)
  let ?Q = "of_types [TypeMismatch, NullComparison]"
  have nc: "\<And>r'. appends ?Q r r' \<Longrightarrow> appends ?Q r (null_check c rt r')"
    by (rule appends_trans[OF _ null_check_appends])
  show ?thesis
  proof (cases "is_Column l \<and> is_Literal rt")
    case False
    then show ?thesis
      using nc[OF appends_refl] by (auto simp: Binary)
  next
    case True
    then obtain s v where rt: "rt = Literal s v"
      by (cases rt) auto
    show ?thesis
    proof (cases "ct (name_of l)")
      case None
      with True show ?thesis by (simp add: Binary appends_refl)
    next
      case (Some column_type)
      have "appends ?Q r (report r TypeMismatch m h)" for m h
        by (simp add: appends_report_type)
      then show ?thesis
        using True Some nc[OF appends_refl] nc
        by (simp add: Binary rt appends_refl Let_def)
    qed
  qed
qed (simp_all add: appends_refl)

lemma validate_where_appends:
  "appends (of_types [TypeMismatch, NullComparison]) r (validate_where md e r)"
proof (cases "arg_where e")
  case None
  then show ?thesis by (simp add: validate_where_def appends_refl)
next
  case (Some w)
  have "appends (of_types [TypeMismatch, NullComparison]) r
          (foldl (where_step (flat_types md)) r (find_all is_Binary w))"
    by (rule appends_foldl) (rule where_step_appends)
  with Some show ?thesis by (simp add: validate_where_def)
qed

lemma having_step_appends:
  "appends (of_types [MisusedHaving, IllegalHavingColumn]) r (having_step sc r pc)"
  by (simp add: having_step_def Let_def appends_refl appends_report_type)

lemma select_entry_step_appends:
  "appends (of_types [MisusedHaving, IllegalHavingColumn]) (snd st)
     (snd (select_entry_step sql h st x))"
proof -
  have "appends (of_types [MisusedHaving, IllegalHavingColumn]) r (foldl (having_step sc) r cs)"
    for sc r cs
    by (rule appends_foldl) (rule having_step_appends)
  then show ?thesis by (simp add: select_entry_step_def Let_def)
qed

lemma select_entries_appends:
  "appends (of_types [MisusedHaving, IllegalHavingColumn]) (snd st)
     (snd (foldl (select_entry_step sql h) st xs))"
proof (induction xs arbitrary: st)
  case Nil
  show ?case by (simp add: appends_refl)
next
  case (Cons x xs)
  show ?case
    using appends_trans[OF select_entry_step_appends Cons.IH] by simp
qed

lemma validate_having_appends:
  "appends (of_types [MisusedHaving, IllegalHavingColumn]) r (validate_having sql e r)"
proof (cases "arg_having e")
  case None
  then show ?thesis by (simp add: validate_having_def appends_refl)
next
  case (Some h)
  let ?Q = "of_types [MisusedHaving, IllegalHavingColumn]"
  have "appends ?Q r (check_misused_having e h r)"
    by (simp add: check_misused_having_def appends_refl appends_report_type)
  moreover have "appends ?Q (check_misused_having e h r)
      (snd (foldl (select_entry_step sql h) ({}, check_misused_having e h r) (expressions e)))"
    using select_entries_appends[where st = "({}, check_misused_having e h r)" and sql = sql and h = h]
    by simp
  ultimately show ?thesis
    using Some by (simp add: validate_having_def appends_trans)
qed

lemma validate_tables_and_columns_appends:
  "appends (of_types [TableMissing, ColumnMissing]) r (validate_tables_and_columns md e r)"
proof -
  let ?Q = "of_types [TableMissing, ColumnMissing]"
  have t: "appends ?Q r (foldl (table_step md) r ts)" for r ts
    by (rule appends_foldl) (simp add: table_step_def appends_refl appends_report_type)
  have c: "appends ?Q r (foldl (column_step all) r cs)" for all r cs
    by (rule appends_foldl) (simp add: column_step_def appends_refl appends_report_type)
  show ?thesis
    unfolding validate_tables_and_columns_def Let_def
    by (rule appends_trans[OF t c])
qed

lemma validate_select_statement_appends:
  "appends (of_types [StructureError, GroupByIncomplete]) r (validate_select_statement e r)"
proof -
  let ?Q = "of_types [StructureError, GroupByIncomplete]"
  have a1: "appends ?Q r (check_from e r)" for r
    by (simp add: check_from_def appends_refl appends_report_type)
  have a2: "appends ?Q r (check_aggregates e r)" for r
    by (simp add: check_aggregates_def Let_def appends_refl appends_report_type)
  have a3: "appends ?Q r (check_group_by e r)" for r
    by (simp add: check_group_by_def Let_def appends_refl appends_report_type)
  show ?thesis
    unfolding validate_select_statement_def
    by (rule appends_trans[OF a1 appends_trans[OF a2 a3]])
qed

lemma apply_rules_appends: "appends (\<lambda>d. True) r (apply_rules sql md e r)"
proof -
  let ?T = "\<lambda>d::diagnostic. True"
  define r2 where "r2 = (if is_Select e then validate_select_statement e r else r)"
  define r3 where "r3 = validate_joins md e r2"
  define r4 where "r4 = validate_where md e r3"
  define r5 where "r5 = validate_having sql e r4"
  define r6 where "r6 = (if md \<noteq> [] then validate_tables_and_columns md e r5 else r5)"
  have "appends ?T r r2"
    unfolding r2_def using appends_mono[OF validate_select_statement_appends, of ?T]
    by (simp add: appends_refl)
  moreover have "appends ?T r2 r3"
    unfolding r3_def by (rule appends_mono[OF validate_joins_appends]) simp
  moreover have "appends ?T r3 r4"
    unfolding r4_def by (rule appends_mono[OF validate_where_appends]) simp
  moreover have "appends ?T r4 r5"
    unfolding r5_def by (rule appends_mono[OF validate_having_appends]) simp
  moreover have "appends ?T r5 r6"
    unfolding r6_def using appends_mono[OF validate_tables_and_columns_appends, of ?T]
    by (simp add: appends_refl)
  ultimately have "appends ?T r r6"
    by (blast intro: appends_trans)
  moreover have "apply_rules sql md e r = r6"
    by (simp add: apply_rules_def Let_def r2_def r3_def r4_def r5_def r6_def)
  ultimately show ?thesis by simp
qed

section \<open>The nodes that a traversal reaches\<close>

lemma bfs_append_set: "set (bfs (qa @ qb)) = set (bfs qa) \<union> set (bfs qb)"
proof (induction "sum_list (map (nodes \<circ> snd) (qa @ qb))" arbitrary: qa qb rule: less_induct)
  case less
  show ?case
  proof (cases qa)
    case Nil
    then show ?thesis by simp
  next
    case (Cons pe qa')
    obtain p e where pe: "pe = (p, e)" by (cases pe)
    let ?kids = "map (Pair (Some e)) (children e)"
    have kids: "sum_list (map (nodes \<circ> snd) ?kids) < nodes e"
      using children_smaller[of e] by (simp add: comp_def)
    have 1: "set (bfs (qa' @ (qb @ ?kids))) = set (bfs qa') \<union> set (bfs (qb @ ?kids))"
      by (rule less) (use kids in \<open>simp add: Cons pe\<close>)
    have 2: "set (bfs (qb @ ?kids)) = set (bfs qb) \<union> set (bfs ?kids)"
      by (rule less) (use kids in \<open>simp add: Cons pe\<close>)
    have 3: "set (bfs (qa' @ ?kids)) = set (bfs qa') \<union> set (bfs ?kids)"
      by (rule less) (use kids in \<open>simp add: Cons pe\<close>)
    show ?thesis
      using 1 2 3 by (auto simp: Cons pe)
  qed
qed

lemma bfs_snd_cong: "map snd q = map snd q' \<Longrightarrow> map snd (bfs q) = map snd (bfs q')"
proof (induction q arbitrary: q' rule: bfs.induct)
  case 1
  then show ?case by simp
next
  case (2 p e q)
  then obtain p' t' where q': "q' = (p', e) # t'" and t': "map snd q = map snd t'"
    by (cases q') auto
  have "map snd (q @ map (Pair (Some e)) (children e))
        = map snd (t' @ map (Pair (Some e)) (children e))"
    using t' by simp
  from "2.IH"[OF this] show ?case by (simp add: q')
qed

lemma walk_child_subset:
  assumes "c \<in> set (children e)"
  shows "set (map snd (walk c)) \<subseteq> set (map snd (walk e))"
proof -
  obtain xs ys where split: "children e = xs @ c # ys"
    using assms by (auto simp: in_set_conv_decomp)
  let ?P = "Pair (Some e)"
  have "set (bfs [(Some e, c)]) \<subseteq> set (bfs (map ?P (children e)))"
    using bfs_append_set[of "map ?P xs" "(Some e, c) # map ?P ys"]
      bfs_append_set[of "[(Some e, c)]" "map ?P ys"]
    by (auto simp: split)
  moreover have "map snd (bfs [(Some e, c)]) = map snd (bfs [(None, c)])"
    by (rule bfs_snd_cong) simp
  ultimately show ?thesis
    unfolding walk_def by (force simp: image_iff)
qed

lemma find_all_child:
  assumes "c \<in> set (children e)" and "find_all cls c \<noteq> []"
  shows "find_all cls e \<noteq> []"
proof -
  from assms(2) obtain x where "x \<in> set (map snd (walk c))" "cls x"
    by (auto simp: find_all_def filter_empty_conv)
  with walk_child_subset[OF assms(1)] have "x \<in> set (map snd (walk e))" by blast
  with \<open>cls x\<close> show ?thesis
    by (auto simp: find_all_def filter_empty_conv)
qed


lemmas rule_defs =
  validate_def run_rules_def apply_rules_def new_validator_def Let_def
  validate_select_statement_def check_from_def check_aggregates_def check_group_by_def
  selected_columns_def group_by_columns_def find_all_def find_first_def walk_def
  validate_joins_def join_step_def join_tables_of_def using_step_def on_step_def resolve_def
  from_tables_def alias_map_def table_entry_def alias_or_name_def has_column_def
  validate_where_def null_check_def flat_types_def upper_def upper_char_def
  isdigit_def drop_first_dot_def
  validate_having_def check_misused_having_def select_entry_step_def having_step_def
  expose_def full_name_def
  validate_tables_and_columns_def extract_tables_def extract_columns_def table_step_def
  column_step_def report_def

lemmas example_defs =
  parser_of_def no_text_def home_catalog_def users_devices_def empty_result_def
  sql_is_null_def q_is_null_def sql_is_not_null_def q_is_not_null_def
  sql_three_tables_def q_three_tables_def
  sql_having_phone_def q_having_phone_def sql_having_user_def q_having_user_def
  sql_on_join_def q_on_join_def sql_using_join_def q_using_join_def
  sql_inner_join_def q_inner_join_def sql_alias_count_def q_alias_count_def
  sql_count_def q_count_def sql_expr_count_def q_expr_count_def

section \<open>The claims\<close>

text \<open>
  C1. The claim: when the parse fails, \<open>validate\<close> returns a result with exactly one
  diagnostic, the syntax error, skips the rules, and lets no exception out. The code does
  not: after the syntax error is recorded the rules run all the same. On an instance that
  has parsed nothing yet they raise \<open>AttributeError\<close>; on an instance that has parsed a query
  before, they run on the tree of that earlier query and add its diagnostics.
\<close>

theorem parse_error_then_rules:
  "(parse_one q = ParseError m \<longrightarrow>
      validate parse_one sql (new_validator md) q = Inl AttributeError)
   \<and> (parse_one q = ParseError m \<and> parsed self = Some e \<longrightarrow>
      validate parse_one sql self q =
        Inr (self\<lparr>query := q\<rparr>,
             apply_rules sql (metadata self) e
               (report \<lparr>is_valid = True, errors = [], suggestions = []\<rparr>
                  SyntaxError (ParserSaid m) CheckSpelling)))"
  by (simp add: validate_def run_rules_def new_validator_def)

theorem parse_error_then_rules_witness:
  "validate (parser_of []) no_text (new_validator home_catalog) ''SELEC user_id FROM users''
     = Inl AttributeError
   \<and> validate (parser_of []) no_text
       \<lparr>metadata = home_catalog, parsed = Some q_inner_join, query = sql_inner_join\<rparr>
       ''SELEC user_id FROM users''
     = Inr (\<lparr>metadata = home_catalog, parsed = Some q_inner_join,
              query = ''SELEC user_id FROM users''\<rparr>,
            \<lparr>is_valid = False,
               errors =
                 [\<lparr>etype = SyntaxError,
                     message = ParserSaid ''Invalid expression / Unexpected token'',
                     suggestion = CheckSpelling\<rparr>,
                  \<lparr>etype = JoinError, message = JoinWithoutCondition ''INNER'',
                     suggestion = AddOnOrUsing\<rparr>],
               suggestions = []\<rparr>)"
proof -
  have failed: "parser_of [] ''SELEC user_id FROM users''
      = ParseError ''Invalid expression / Unexpected token''"
    by (simp add: parser_of_def)
  have rules: "apply_rules no_text home_catalog q_inner_join
      (report \<lparr>is_valid = True, errors = [], suggestions = []\<rparr> SyntaxError
         (ParserSaid ''Invalid expression / Unexpected token'') CheckSpelling)
      = \<lparr>is_valid = False,
           errors =
             [\<lparr>etype = SyntaxError,
                 message = ParserSaid ''Invalid expression / Unexpected token'',
                 suggestion = CheckSpelling\<rparr>,
              \<lparr>etype = JoinError, message = JoinWithoutCondition ''INNER'',
                 suggestion = AddOnOrUsing\<rparr>],
           suggestions = []\<rparr>"
    by (simp add: rule_defs example_defs)
  show ?thesis
    using failed rules
      parse_error_then_rules[of "parser_of []" "''SELEC user_id FROM users''"
        "''Invalid expression / Unexpected token''" no_text home_catalog
        "\<lparr>metadata = home_catalog, parsed = Some q_inner_join, query = sql_inner_join\<rparr>"
        q_inner_join]
    by simp
qed

text \<open>
  C2. The claim: a comparison with NULL on the right yields the NULL-comparison diagnostic
  when the operator is \<open>=\<close> and never when it is \<open>IS\<close> or \<open>IS NOT\<close>. The code tests
  \<open>condition.type\<close>, the inferred data type of the node, against the strings "IS" and
  "IS NOT"; that attribute is never such a string, so every binary node with NULL on the
  right is reported, whatever its operator. The second and third part evaluate
  \<open>SELECT user_id FROM users WHERE e_mail IS NULL\<close> and the same query with \<open>IS NOT NULL\<close>.
\<close>

theorem is_null_reported:
  "where_step ct r (Binary bop ty left Null) =
     report r NullComparison UseIsNull (ReplaceByIsNull (node_type (Binary bop ty left Null)))
   \<and> validate (parser_of [(sql_is_null, q_is_null)]) no_text (new_validator home_catalog)
       sql_is_null
     = Inr (\<lparr>metadata = home_catalog, parsed = Some q_is_null, query = sql_is_null\<rparr>,
            \<lparr>is_valid = False,
               errors = [\<lparr>etype = NullComparison, message = UseIsNull,
                           suggestion = ReplaceByIsNull PyNone\<rparr>],
               suggestions = []\<rparr>)
   \<and> validate (parser_of [(sql_is_not_null, q_is_not_null)]) no_text
       (new_validator home_catalog) sql_is_not_null
     = Inr (\<lparr>metadata = home_catalog, parsed = Some q_is_not_null,
              query = sql_is_not_null\<rparr>,
            \<lparr>is_valid = False,
               errors = [\<lparr>etype = NullComparison, message = UseIsNull,
                           suggestion = ReplaceByIsNull PyNone\<rparr>],
               suggestions = []\<rparr>)"
proof (intro conjI)
  show "where_step ct r (Binary bop ty left Null) =
     report r NullComparison UseIsNull (ReplaceByIsNull (node_type (Binary bop ty left Null)))"
    by (cases ty) (simp_all add: null_check_def)
  show "validate (parser_of [(sql_is_null, q_is_null)]) no_text (new_validator home_catalog)
       sql_is_null
     = Inr (\<lparr>metadata = home_catalog, parsed = Some q_is_null, query = sql_is_null\<rparr>,
            \<lparr>is_valid = False,
               errors = [\<lparr>etype = NullComparison, message = UseIsNull,
                           suggestion = ReplaceByIsNull PyNone\<rparr>],
               suggestions = []\<rparr>)"
    by (simp add: rule_defs example_defs)
  show "validate (parser_of [(sql_is_not_null, q_is_not_null)]) no_text
       (new_validator home_catalog) sql_is_not_null
     = Inr (\<lparr>metadata = home_catalog, parsed = Some q_is_not_null,
              query = sql_is_not_null\<rparr>,
            \<lparr>is_valid = False,
               errors = [\<lparr>etype = NullComparison, message = UseIsNull,
                           suggestion = ReplaceByIsNull PyNone\<rparr>],
               suggestions = []\<rparr>)"
    by (simp add: rule_defs example_defs)
qed

text \<open>
  C3. The claim: the tables in scope of the k-th join are those of FROM, those of the joins
  before it, and its own. The code empties \<open>join_tables\<close> at the start of every round, so
  the tables of earlier joins are never in it: it is FROM's tables and the join's own. In
  \<open>SELECT * FROM users JOIN devices USING (user_id) JOIN usage_records USING (device_id)\<close>
  the column \<open>device_id\<close> is in \<open>devices\<close> and in \<open>usage_records\<close>, two of the three tables
  that the claim puts in scope, and the code reports it as being on one side only.
\<close>

theorem earlier_joins_out_of_scope:
  "join_tables_of base_tables (Join t k c us) =
     base_tables @ [\<lparr>tbl_name = name_of t, tbl_alias = alias_or_name t\<rparr>]
   \<and> length (tables_with_column home_catalog
        (users_devices @ [\<lparr>tbl_name = ''usage_records'', tbl_alias = ''usage_records''\<rparr>])
        ''device_id'') = 2
   \<and> validate (parser_of [(sql_three_tables, q_three_tables)]) no_text
       (new_validator home_catalog) sql_three_tables
     = Inr (\<lparr>metadata = home_catalog, parsed = Some q_three_tables,
              query = sql_three_tables\<rparr>,
            \<lparr>is_valid = False,
               errors = [\<lparr>etype = JoinError,
                           message = UsingColumnOneSide ''device_id'' ''usage_records'',
                           suggestion = UseOnInstead\<rparr>],
               suggestions = []\<rparr>)"
proof (intro conjI)
  show "join_tables_of base_tables (Join t k c us) =
     base_tables @ [\<lparr>tbl_name = name_of t, tbl_alias = alias_or_name t\<rparr>]"
    by (simp add: join_tables_of_def)
  show "length (tables_with_column home_catalog
        (users_devices @ [\<lparr>tbl_name = ''usage_records'', tbl_alias = ''usage_records''\<rparr>])
        ''device_id'') = 2"
    by (simp add: tables_with_column_def example_defs)
  show "validate (parser_of [(sql_three_tables, q_three_tables)]) no_text
       (new_validator home_catalog) sql_three_tables
     = Inr (\<lparr>metadata = home_catalog, parsed = Some q_three_tables,
              query = sql_three_tables\<rparr>,
            \<lparr>is_valid = False,
               errors = [\<lparr>etype = JoinError,
                           message = UsingColumnOneSide ''device_id'' ''usage_records'',
                           suggestion = UseOnInstead\<rparr>],
               suggestions = []\<rparr>)"
    by (simp add: rule_defs example_defs)
qed





text \<open>
  C5. The claim: a non-aggregate column of HAVING yields exactly one diagnostic when neither
  of its names is among the names that the whole select list exposes, and none otherwise.
  In the code the loop over the columns of HAVING runs inside the loop over the select
  list. \<open>SELECT user_id, COUNT(*) FROM users GROUP BY user_id HAVING phone_num > 0\<close> has two
  entries in its select list and yields the diagnostic for \<open>phone_num\<close> twice; in
  \<open>SELECT COUNT(*), user_id FROM users GROUP BY user_id HAVING user_id > 0\<close> the select list
  exposes \<open>user_id\<close>, yet the round of the first entry reports it.
\<close>

theorem having_check_per_select_entry:
  "validate (parser_of [(sql_having_phone, q_having_phone)]) no_text (new_validator [])
       sql_having_phone
     = Inr (\<lparr>metadata = [], parsed = Some q_having_phone, query = sql_having_phone\<rparr>,
            \<lparr>is_valid = False,
               errors =
                 [\<lparr>etype = IllegalHavingColumn,
                     message = HavingColumnNotSelected ''phone_num'',
                     suggestion = AddToSelect\<rparr>,
                  \<lparr>etype = IllegalHavingColumn,
                     message = HavingColumnNotSelected ''phone_num'',
                     suggestion = AddToSelect\<rparr>],
               suggestions = []\<rparr>)
   \<and> ''user_id'' \<in> foldl (expose no_text) {} (expressions q_having_user)
   \<and> validate (parser_of [(sql_having_user, q_having_user)]) no_text (new_validator [])
       sql_having_user
     = Inr (\<lparr>metadata = [], parsed = Some q_having_user, query = sql_having_user\<rparr>,
            \<lparr>is_valid = False,
               errors =
                 [\<lparr>etype = IllegalHavingColumn,
                     message = HavingColumnNotSelected ''user_id'',
                     suggestion = AddToSelect\<rparr>],
               suggestions = []\<rparr>)"
  by (simp add: rule_defs example_defs)

text \<open>
  C6. The claim: for every USING column, the tables of the join's JoinTableSet whose column
  map has the column are counted; none gives column-not-found, exactly one gives the join
  error, two or more give nothing. The round of a column does exactly this over the list
  \<open>join_tables\<close> it is given (first three parts). But for a join after the first that list is
  not the JoinTableSet: it lacks the tables of the earlier joins (the defect of C3). In
  \<open>SELECT * FROM users JOIN devices USING (user_id) JOIN usage_records USING (device_id)\<close>
  the JoinTableSet of the second join is users, devices, usage_records, and two of them
  have \<open>device_id\<close>; the code counts over users, usage_records, finds one, and records the
  join error.
\<close>

theorem using_count_misses_earlier_joins:
  "(length (tables_with_column md join_tables (name_of col)) = 0 \<longrightarrow>
      using_step md join_tables r col =
        r\<lparr>is_valid := False,
          errors := errors r @
            [\<lparr>etype = ColumnMissing,
               message = UsingColumnNowhere (name_of col) (map tbl_alias join_tables),
               suggestion = AvailableByTable
                 (map (\<lambda>(t, cols). (t, map fst cols))
                    (filter (\<lambda>(t, cols). t \<in> set (map tbl_name join_tables)) md))\<rparr>]\<rparr>)
   \<and> (length (tables_with_column md join_tables (name_of col)) = 1 \<longrightarrow>
      using_step md join_tables r col =
        r\<lparr>is_valid := False,
          errors := errors r @
            [\<lparr>etype = JoinError,
               message = UsingColumnOneSide (name_of col)
                 (tbl_alias (hd (tables_with_column md join_tables (name_of col)))),
               suggestion = UseOnInstead\<rparr>]\<rparr>)
   \<and> (2 \<le> length (tables_with_column md join_tables (name_of col)) \<longrightarrow>
      using_step md join_tables r col = r)
   \<and> join_table_set (from_tables q_three_tables) (arg_joins q_three_tables) 1 =
       [\<lparr>tbl_name = ''users'', tbl_alias = ''users''\<rparr>,
        \<lparr>tbl_name = ''devices'', tbl_alias = ''devices''\<rparr>,
        \<lparr>tbl_name = ''usage_records'', tbl_alias = ''usage_records''\<rparr>]
   \<and> length (tables_with_column home_catalog
        (join_table_set (from_tables q_three_tables) (arg_joins q_three_tables) 1)
        ''device_id'') = 2
   \<and> join_tables_of (from_tables q_three_tables) (arg_joins q_three_tables ! 1) =
       [\<lparr>tbl_name = ''users'', tbl_alias = ''users''\<rparr>,
        \<lparr>tbl_name = ''usage_records'', tbl_alias = ''usage_records''\<rparr>]
   \<and> validate_joins home_catalog q_three_tables
        \<lparr>is_valid = True, errors = [], suggestions = []\<rparr>
     = \<lparr>is_valid = False,
          errors = [\<lparr>etype = JoinError,
                      message = UsingColumnOneSide ''device_id'' ''usage_records'',
                      suggestion = UseOnInstead\<rparr>],
          suggestions = []\<rparr>"
proof -
  have valid: "filter (\<lambda>table_info. has_column md (tbl_name table_info) (name_of col)) join_tables
      = tables_with_column md join_tables (name_of col)"
    by (simp add: tables_with_column_def has_column_def)
  have zero: "length (tables_with_column md join_tables (name_of col)) = 0 \<longrightarrow>
      using_step md join_tables r col =
        r\<lparr>is_valid := False,
          errors := errors r @
            [\<lparr>etype = ColumnMissing,
               message = UsingColumnNowhere (name_of col) (map tbl_alias join_tables),
               suggestion = AvailableByTable
                 (map (\<lambda>(t, cols). (t, map fst cols))
                    (filter (\<lambda>(t, cols). t \<in> set (map tbl_name join_tables)) md))\<rparr>]\<rparr>"
    by (simp add: using_step_def valid Let_def report_def)
  have one: "length (tables_with_column md join_tables (name_of col)) = 1 \<longrightarrow>
      using_step md join_tables r col =
        r\<lparr>is_valid := False,
          errors := errors r @
            [\<lparr>etype = JoinError,
               message = UsingColumnOneSide (name_of col)
                 (tbl_alias (hd (tables_with_column md join_tables (name_of col)))),
               suggestion = UseOnInstead\<rparr>]\<rparr>"
  proof
    assume n: "length (tables_with_column md join_tables (name_of col)) = 1"
    then have "tables_with_column md join_tables (name_of col) \<noteq> []" by auto
    with n show "using_step md join_tables r col =
        r\<lparr>is_valid := False,
          errors := errors r @
            [\<lparr>etype = JoinError,
               message = UsingColumnOneSide (name_of col)
                 (tbl_alias (hd (tables_with_column md join_tables (name_of col)))),
               suggestion = UseOnInstead\<rparr>]\<rparr>"
      by (simp add: using_step_def valid Let_def hd_map report_def)
  qed
  have more: "2 \<le> length (tables_with_column md join_tables (name_of col)) \<longrightarrow>
      using_step md join_tables r col = r"
  proof
    assume n: "2 \<le> length (tables_with_column md join_tables (name_of col))"
    then have "tables_with_column md join_tables (name_of col) \<noteq> []" by auto
    with n show "using_step md join_tables r col = r"
      by (simp add: using_step_def valid Let_def)
  qed
  have spec_set: "join_table_set (from_tables q_three_tables) (arg_joins q_three_tables) 1 =
       [\<lparr>tbl_name = ''users'', tbl_alias = ''users''\<rparr>,
        \<lparr>tbl_name = ''devices'', tbl_alias = ''devices''\<rparr>,
        \<lparr>tbl_name = ''usage_records'', tbl_alias = ''usage_records''\<rparr>]"
    by (simp add: join_table_set_def rule_defs example_defs)
  have spec_count: "length (tables_with_column home_catalog
        (join_table_set (from_tables q_three_tables) (arg_joins q_three_tables) 1)
        ''device_id'') = 2"
    unfolding spec_set by (simp add: tables_with_column_def home_catalog_def)
  have code_set: "join_tables_of (from_tables q_three_tables) (arg_joins q_three_tables ! 1) =
       [\<lparr>tbl_name = ''users'', tbl_alias = ''users''\<rparr>,
        \<lparr>tbl_name = ''usage_records'', tbl_alias = ''usage_records''\<rparr>]"
    by (simp add: rule_defs example_defs)
  have run: "validate_joins home_catalog q_three_tables
        \<lparr>is_valid = True, errors = [], suggestions = []\<rparr>
     = \<lparr>is_valid = False,
          errors = [\<lparr>etype = JoinError,
                      message = UsingColumnOneSide ''device_id'' ''usage_records'',
                      suggestion = UseOnInstead\<rparr>],
          suggestions = []\<rparr>"
    by (simp add: rule_defs example_defs)
  show ?thesis
    using zero one more spec_set spec_count code_set run by blast
qed

theorem using_count_misses_earlier_joins_witness:
  "length (tables_with_column home_catalog users_devices ''serial_no'') = 0
   \<and> using_step home_catalog users_devices
        \<lparr>is_valid = True, errors = [], suggestions = []\<rparr> (Identifier ''serial_no'')
     = \<lparr>is_valid = False,
          errors = [\<lparr>etype = ColumnMissing,
                      message = UsingColumnNowhere ''serial_no'' [''users'', ''devices''],
                      suggestion = AvailableByTable
                        [(''users'', [''user_id'', ''username'', ''e_mail'']),
                         (''devices'', [''device_id'', ''user_id''])]\<rparr>],
          suggestions = []\<rparr>
   \<and> length (tables_with_column home_catalog users_devices ''username'') = 1
   \<and> using_step home_catalog users_devices
        \<lparr>is_valid = True, errors = [], suggestions = []\<rparr> (Identifier ''username'')
     = \<lparr>is_valid = False,
          errors = [\<lparr>etype = JoinError,
                      message = UsingColumnOneSide ''username'' ''users'',
                      suggestion = UseOnInstead\<rparr>],
          suggestions = []\<rparr>
   \<and> length (tables_with_column home_catalog users_devices ''user_id'') = 2
   \<and> using_step home_catalog users_devices
        \<lparr>is_valid = True, errors = [], suggestions = []\<rparr> (Identifier ''user_id'')
     = \<lparr>is_valid = True, errors = [], suggestions = []\<rparr>"
proof -
  let ?r = "\<lparr>is_valid = True, errors = [], suggestions = []\<rparr>"
  have n0: "length (tables_with_column home_catalog users_devices ''serial_no'') = 0"
    by (simp add: tables_with_column_def example_defs)
  have n1: "length (tables_with_column home_catalog users_devices ''username'') = 1"
    by (simp add: tables_with_column_def example_defs)
  have n2: "length (tables_with_column home_catalog users_devices ''user_id'') = 2"
    by (simp add: tables_with_column_def example_defs)
  have h1: "hd (tables_with_column home_catalog users_devices ''username'')
      = \<lparr>tbl_name = ''users'', tbl_alias = ''users''\<rparr>"
    by (simp add: tables_with_column_def example_defs)
  have av: "map (\<lambda>(t, cols). (t, map fst cols))
        (filter (\<lambda>(t, cols). t \<in> set (map tbl_name users_devices)) home_catalog)
      = [(''users'', [''user_id'', ''username'', ''e_mail'']),
         (''devices'', [''device_id'', ''user_id''])]"
    by (simp add: example_defs)
  have al: "map tbl_alias users_devices = [''users'', ''devices'']"
    by (simp add: users_devices_def)
  note count = using_count_misses_earlier_joins[where md = home_catalog
      and join_tables = users_devices and r = ?r]
  show ?thesis
    using n0 n1 n2 h1 av al
      count[where col = "Identifier ''serial_no''"]
      count[where col = "Identifier ''username''"]
      count[where col = "Identifier ''user_id''"]
    by simp
qed

text \<open>
  C7. A join with neither ON nor USING: its round sets the flag to false and adds exactly
  the one diagnostic of the join without condition to what the joins before it left, and
  nothing else (no USING or ON check runs); the later joins follow.
\<close>

theorem join_without_condition:
  assumes "arg_joins stmt = js1 @ Join t k None [] # js2"
  shows "validate_joins md stmt r =
     foldl (join_step md (from_tables stmt) (alias_map stmt))
       ((foldl (join_step md (from_tables stmt) (alias_map stmt)) r js1)
          \<lparr>is_valid := False,
           errors := errors (foldl (join_step md (from_tables stmt) (alias_map stmt)) r js1) @
             [\<lparr>etype = JoinError, message = JoinWithoutCondition (upper k),
                suggestion = AddOnOrUsing\<rparr>]\<rparr>)
       js2"
  using assms by (simp add: validate_joins_def join_step_def report_def)

theorem join_without_condition_witness:
  "arg_joins q_inner_join = [] @ Join (Table ''devices'' []) ''INNER'' None [] # []
   \<and> validate_joins home_catalog q_inner_join
        \<lparr>is_valid = True, errors = [], suggestions = []\<rparr>
     = \<lparr>is_valid = False,
          errors = [\<lparr>etype = JoinError, message = JoinWithoutCondition ''INNER'',
                      suggestion = AddOnOrUsing\<rparr>],
          suggestions = []\<rparr>"
proof -
  have h: "arg_joins q_inner_join = [] @ Join (Table ''devices'' []) ''INNER'' None [] # []"
    by (simp add: q_inner_join_def)
  show ?thesis
    using h join_without_condition[OF h, of home_catalog
        "\<lparr>is_valid = True, errors = [], suggestions = []\<rparr>"]
    by (simp add: upper_def upper_char_def)
qed

text \<open>
  C8. In every result that \<open>validate\<close> returns, \<open>is_valid\<close> is false exactly when the list of
  errors is not empty. (By \<open>apply_rules_appends\<close> the rules only add entries at the end, and
  the flag stays true exactly as long as nothing is added.)
\<close>

theorem is_valid_iff_no_errors:
  assumes "validate parse_one sql self q = Inr (self', res)"
  shows "is_valid res \<longleftrightarrow> errors res = []"
proof -
  let ?init = "\<lparr>is_valid = True, errors = [], suggestions = []\<rparr>"
  have "\<exists>r0 e. (is_valid r0 \<longleftrightarrow> errors r0 = []) \<and> res = apply_rules sql (metadata self) e r0"
  proof (cases "parse_one q")
    case (Parsed e)
    with assms have "res = apply_rules sql (metadata self) e ?init"
      by (auto simp: validate_def run_rules_def)
    then show ?thesis by force
  next
    case (ParseError m)
    with assms obtain e where
      "res = apply_rules sql (metadata self) e (report ?init SyntaxError (ParserSaid m) CheckSpelling)"
      by (cases "parsed self") (auto simp: validate_def run_rules_def)
    moreover have "is_valid (report ?init SyntaxError (ParserSaid m) CheckSpelling)
        \<longleftrightarrow> errors (report ?init SyntaxError (ParserSaid m) CheckSpelling) = []"
      by (simp add: report_def)
    ultimately show ?thesis by blast
  next
    case (OtherFault m)
    with assms show ?thesis by (simp add: validate_def)
  qed
  then obtain r0 e where r0: "is_valid r0 \<longleftrightarrow> errors r0 = []"
    and res: "res = apply_rules sql (metadata self) e r0"
    by blast
  from apply_rules_appends[of r0 sql "metadata self" e] r0 show ?thesis
    unfolding res by (auto simp: appends_iff)
qed

theorem is_valid_iff_no_errors_witness:
  "validate (parser_of [(sql_count, q_count)]) no_text (new_validator home_catalog) sql_count
     = Inr (\<lparr>metadata = home_catalog, parsed = Some q_count, query = sql_count\<rparr>,
            report empty_result StructureError AggregatesWithoutGroupBy AddGroupBy)
   \<and> (is_valid (report empty_result StructureError AggregatesWithoutGroupBy AddGroupBy)
        \<longleftrightarrow> errors (report empty_result StructureError AggregatesWithoutGroupBy AddGroupBy) = [])
   \<and> validate (parser_of [(sql_alias_count, q_alias_count)]) no_text
        (new_validator home_catalog) sql_alias_count
     = Inr (\<lparr>metadata = home_catalog, parsed = Some q_alias_count, query = sql_alias_count\<rparr>,
            empty_result)
   \<and> (is_valid empty_result \<longleftrightarrow> errors empty_result = [])"
proof -
  have a: "validate (parser_of [(sql_count, q_count)]) no_text (new_validator home_catalog)
      sql_count
     = Inr (\<lparr>metadata = home_catalog, parsed = Some q_count, query = sql_count\<rparr>,
            report empty_result StructureError AggregatesWithoutGroupBy AddGroupBy)"
    by (simp add: rule_defs example_defs)
  have b: "validate (parser_of [(sql_alias_count, q_alias_count)]) no_text
        (new_validator home_catalog) sql_alias_count
     = Inr (\<lparr>metadata = home_catalog, parsed = Some q_alias_count, query = sql_alias_count\<rparr>,
            empty_result)"
    by (simp add: rule_defs example_defs)
  show ?thesis
    using a b is_valid_iff_no_errors[OF a] is_valid_iff_no_errors[OF b] by simp
qed

lemma appends_other_types:
  assumes "appends (of_types ts) r r'" and "StructureError \<notin> set ts"
  shows "filter is_missing_group_by (errors r') = filter is_missing_group_by (errors r)"
proof -
  from assms(1) obtain ds where ds: "list_all (of_types ts) ds" "errors r' = errors r @ ds"
    by (auto simp: appends_iff)
  have "filter is_missing_group_by ds = []"
    using ds(1) assms(2)
    by (auto simp: filter_empty_conv list_all_iff of_types_def is_missing_group_by_def)
  with ds(2) show ?thesis by simp
qed

text \<open>
  Where the select list of a SELECT without GROUP BY holds an aggregate call (at any depth)
  and an entry that is itself a column node, the result of \<open>validate\<close> has the diagnostic of
  the missing GROUP BY exactly once.
\<close>

lemma bare_column_reported_once:
  assumes "parse_one q = Parsed (Select es f js w None h)"
    and "\<exists>e\<in>set es. find_all is_AggFunc e \<noteq> []"
    and "\<exists>e\<in>set es. is_Column e"
  shows "\<exists>self' res. validate parse_one sql self q = Inr (self', res)
           \<and> length (filter is_missing_group_by (errors res)) = 1"
proof -
  let ?e = "Select es f js w None h"
  let ?md = "metadata self"
  let ?init = "\<lparr>is_valid = True, errors = [], suggestions = []\<rparr>"
  define r2 where "r2 = validate_select_statement ?e ?init"
  define r3 where "r3 = validate_joins ?md ?e r2"
  define r4 where "r4 = validate_where ?md ?e r3"
  define r5 where "r5 = validate_having sql ?e r4"
  define r6 where "r6 = (if ?md \<noteq> [] then validate_tables_and_columns ?md ?e r5 else r5)"
  have run: "validate parse_one sql self q = Inr (self\<lparr>query := q, parsed := Some ?e\<rparr>, r6)"
    using assms(1)
    by (simp add: validate_def run_rules_def apply_rules_def Let_def
        r2_def r3_def r4_def r5_def r6_def)
  have agg: "find_all is_AggFunc ?e \<noteq> []"
    using assms(2) find_all_child[of _ ?e is_AggFunc] by auto
  have sel: "selected_columns ?e \<noteq> []"
    using assms(3) by (auto simp: selected_columns_def filter_empty_conv)
  have "filter is_missing_group_by (errors (check_from ?e ?init)) = []"
    by (simp add: check_from_def report_def is_missing_group_by_def)
  then have "filter is_missing_group_by (errors (check_aggregates ?e (check_from ?e ?init)))
      = [\<lparr>etype = StructureError, message = AggregatesWithoutGroupBy, suggestion = AddGroupBy\<rparr>]"
    using agg sel by (simp add: check_aggregates_def report_def is_missing_group_by_def)
  then have c2: "length (filter is_missing_group_by (errors r2)) = 1"
    by (simp add: r2_def validate_select_statement_def check_group_by_def)
  have "filter is_missing_group_by (errors r3) = filter is_missing_group_by (errors r2)"
    unfolding r3_def by (rule appends_other_types[OF validate_joins_appends]) simp
  moreover have "filter is_missing_group_by (errors r4) = filter is_missing_group_by (errors r3)"
    unfolding r4_def by (rule appends_other_types[OF validate_where_appends]) simp
  moreover have "filter is_missing_group_by (errors r5) = filter is_missing_group_by (errors r4)"
    unfolding r5_def by (rule appends_other_types[OF validate_having_appends]) simp
  moreover have "filter is_missing_group_by (errors r6) = filter is_missing_group_by (errors r5)"
    unfolding r6_def
    using appends_other_types[OF validate_tables_and_columns_appends, of ?md ?e r5] by simp
  ultimately have "length (filter is_missing_group_by (errors r6)) = 1"
    using c2 by simp
  with run show ?thesis by blast
qed

text \<open>
  C9. The claim: a SELECT whose select list contains an aggregate call and a non-aggregate
  column reference, without GROUP BY, has the missing-GROUP-BY diagnostic exactly once. The
  code looks for ordinary columns (its comment and its message name "aggregates and ordinary
  columns") only among the entries that are themselves column nodes, and misses a column
  under an alias or inside an expression; \<open>_validate_having\<close> does unwrap the alias. In
  \<open>SELECT user_id AS uid, COUNT(*) FROM users\<close> and in
  \<open>SELECT user_id + 1, COUNT(*) FROM users\<close> the select list has an aggregate call and a
  column reference outside any aggregate call, there is no GROUP BY, and the result has no
  diagnostic at all.
\<close>

theorem wrapped_column_not_counted:
  "list_ex is_AggFunc (expressions q_alias_count)
   \<and> list_ex non_aggregate_column (concat (map walk (expressions q_alias_count)))
   \<and> arg_group q_alias_count = None
   \<and> validate (parser_of [(sql_alias_count, q_alias_count)]) no_text
        (new_validator home_catalog) sql_alias_count
     = Inr (\<lparr>metadata = home_catalog, parsed = Some q_alias_count, query = sql_alias_count\<rparr>,
            \<lparr>is_valid = True, errors = [], suggestions = []\<rparr>)
   \<and> list_ex is_AggFunc (expressions q_expr_count)
   \<and> list_ex non_aggregate_column (concat (map walk (expressions q_expr_count)))
   \<and> arg_group q_expr_count = None
   \<and> validate (parser_of [(sql_expr_count, q_expr_count)]) no_text
        (new_validator home_catalog) sql_expr_count
     = Inr (\<lparr>metadata = home_catalog, parsed = Some q_expr_count, query = sql_expr_count\<rparr>,
            \<lparr>is_valid = True, errors = [], suggestions = []\<rparr>)"
  by (simp add: rule_defs example_defs non_aggregate_column_def
      sql_expr_count_def q_expr_count_def)

text \<open>
  C10. The type check of WHERE runs only for a column on the left and a literal on the
  right. A comparison with a literal on the left and a column on the right leaves the
  result as it is, whatever the declared types and the literal; and the round of a
  comparison that is not column-left and literal-right adds no type mismatch.
\<close>

theorem type_check_needs_column_left:
  "where_step ct r (Binary bop ty (Literal s v) (Column t n)) = r
   \<and> (\<not> (is_Column left \<and> is_Literal right) \<longrightarrow>
        filter is_type_mismatch (errors (where_step ct r (Binary bop ty left right)))
          = filter is_type_mismatch (errors r))"
proof (intro conjI impI)
  show "where_step ct r (Binary bop ty (Literal s v) (Column t n)) = r"
    by (simp add: null_check_def)
next
  assume "\<not> (is_Column left \<and> is_Literal right)"
  then have "where_step ct r (Binary bop ty left right)
      = null_check (Binary bop ty left right) right r"
    by auto
  then show "filter is_type_mismatch (errors (where_step ct r (Binary bop ty left right)))
          = filter is_type_mismatch (errors r)"
    by (simp add: null_check_def report_def is_type_mismatch_def)
qed

theorem type_check_needs_column_left_witness:
  "flat_types home_catalog ''user_id'' = Some ''integer''
   \<and> where_step (flat_types home_catalog) empty_result
        (Binary OpEQ None (Literal True ''abc'') (Column [] ''user_id'')) = empty_result
   \<and> \<not> (is_Column (Literal True ''abc'') \<and> is_Literal (Column [] ''user_id''))
   \<and> filter is_type_mismatch
        (errors (where_step (flat_types home_catalog) empty_result
           (Binary OpEQ None (Literal True ''abc'') (Column [] ''user_id'')))) = []
   \<and> filter is_type_mismatch
        (errors (where_step (flat_types home_catalog) empty_result
           (Binary OpEQ None (Column [] ''user_id'') (Literal True ''abc''))))
      = [\<lparr>etype = TypeMismatch, message = NumericVsString ''user_id'' ''abc'',
           suggestion = RemoveQuotesOrCast\<rparr>]"
proof -
  have ty: "flat_types home_catalog ''user_id'' = Some ''integer''"
    by (simp add: flat_types_def home_catalog_def)
  have hyp: "\<not> (is_Column (Literal True ''abc'') \<and> is_Literal (Column [] ''user_id''))"
    by simp
  have fires: "where_step (flat_types home_catalog) empty_result
           (Binary OpEQ None (Column [] ''user_id'') (Literal True ''abc''))
      = report empty_result TypeMismatch (NumericVsString ''user_id'' ''abc'') RemoveQuotesOrCast"
    by (simp add: ty null_check_def isdigit_def drop_first_dot_def)
  show ?thesis
    using ty hyp fires
      type_check_needs_column_left[of "flat_types home_catalog" empty_result OpEQ None
        True "''abc''" "[]" "''user_id''" "Literal True ''abc''" "Column [] ''user_id''"]
    by (simp add: report_def empty_result_def is_type_mismatch_def)
qed

end
